theory Spec2Isabelle
  imports Main "HOL-Library.Multiset"
begin

section \<open>Python values used by the job\<close>

text \<open>
  A Python \<open>str\<close> is a sequence of Unicode code points; \<open>len\<close> counts code points.
  Tweet texts are therefore lists of code points. Names that the program only passes
  around (user names, paths, keys, tokens, messages) are ASCII and stay HOL strings.
\<close>

type_synonym pystr = "nat list"

definition ascii :: "string \<Rightarrow> pystr" where
  "ascii s = map of_char s"

text \<open>
  The exceptions the job can meet. \<open>TooManyRequests\<close> is a subclass of
  \<open>TweepyException\<close>; \<open>Exception\<close> stands for any other exception.
\<close>

datatype exn =
    TooManyRequests
  | TweepyException
  | KeyError
  | TypeError
  | ValueError string
  | OverflowError
  | FileNotFoundError string
  | S3UploadFailedError
  | Exception

fun is_TweepyException :: "exn \<Rightarrow> bool" where
  "is_TweepyException TooManyRequests = True"
| "is_TweepyException TweepyException = True"
| "is_TweepyException _ = False"

text \<open>
  \<open>time.sleep(secs)\<close> for an integer: the duration is first converted to a signed 64-bit
  count of nanoseconds, which raises \<open>OverflowError\<close> beyond 9223372036 seconds either
  way; a negative duration then raises \<open>ValueError\<close>. \<open>None\<close> is a sleep that took place.
\<close>

definition time_sleep :: "int \<Rightarrow> exn option" where
  "time_sleep secs =
     (if secs < - 9223372036 \<or> 9223372036 < secs then Some OverflowError
      else if secs < 0 then Some (ValueError ''sleep length must be non-negative'')
      else None)"

text \<open>\<open>xs[:n]\<close>: a negative bound counts from the end.\<close>

definition py_slice_to :: "'a list \<Rightarrow> int \<Rightarrow> 'a list" where
  "py_slice_to xs n =
     (if 0 \<le> n then take (nat n) xs else take (length xs - nat (- n)) xs)"

text \<open>The status document of the rate-limit endpoint: nested dictionaries.\<close>

datatype json = JNull | JInt int | JStr string | JObj "(string \<times> json) list"

fun subscript :: "json \<Rightarrow> string \<Rightarrow> exn + json" where
  "subscript (JObj kvs) k = (case map_of kvs k of None \<Rightarrow> Inl KeyError | Some v \<Rightarrow> Inr v)"
| "subscript _ k = Inl TypeError"

section \<open>The API client\<close>

text \<open>
  A creation time as the job meets it: absent, a datetime (an instant, in nanoseconds
  since the epoch, UTC), or a string still to be parsed.
\<close>

datatype raw_time = NoTime | Datetime int | TimeString pystr

record tweet =
  tweet_id :: int
  tweet_created_at :: raw_time
  tweet_text :: pystr
  public_metrics :: "(string \<times> int) list option"

record response =
  data :: "tweet list option"
  meta_next_token :: "string option"

record page_request =
  user_id :: int
  max_results :: int
  pagination_token :: "string option"

text \<open>
  The client is the environment. \<open>get_users_tweets\<close> answers the \<open>n\<close>-th page request
  of a run (counted from 0), so that the same request can be refused first and served
  later. \<open>get_user\<close> gives \<open>user.data\<close>: nothing, or the user's id.
\<close>

record client =
  get_rate_limit_status :: "exn + json"
  get_user :: "string \<Rightarrow> exn + int option"
  get_users_tweets :: "nat \<Rightarrow> page_request \<Rightarrow> exn + response"

section \<open>The paginated fetcher of p.py\<close>

text \<open>The dictionary built for each tweet.\<close>

record post =
  raw_id :: int
  raw_created_at :: raw_time
  raw_text :: pystr
  raw_likes :: "int option"
  raw_retweets :: "int option"

definition tweet_dict :: "tweet \<Rightarrow> exn + post" where
  "tweet_dict t =
     (case public_metrics t of
        None \<Rightarrow> Inl TypeError
      | Some pm \<Rightarrow>
          (case map_of pm ''like_count'' of
             None \<Rightarrow> Inl KeyError
           | Some l \<Rightarrow>
               (case map_of pm ''retweet_count'' of
                  None \<Rightarrow> Inl KeyError
                | Some r \<Rightarrow>
                    Inr \<lparr>raw_id = tweet_id t, raw_created_at = tweet_created_at t,
                         raw_text = tweet_text t, raw_likes = Some l,
                         raw_retweets = Some r\<rparr>)))"

text \<open>The list comprehension: the first exception ends it.\<close>

fun tweet_dicts :: "tweet list \<Rightarrow> exn + post list" where
  "tweet_dicts [] = Inr []"
| "tweet_dicts (t # ts) =
     (case tweet_dict t of
        Inl e \<Rightarrow> Inl e
      | Inr d \<Rightarrow> (case tweet_dicts ts of Inl e \<Rightarrow> Inl e | Inr ds \<Rightarrow> Inr (d # ds)))"

text \<open>
  The local variables of \<open>get_user_tweets\<close>, and two logs of what the loop did to the
  world: the page requests sent and the durations slept.
\<close>

record fetch_state =
  tweets :: "post list"
  next_token :: "string option"
  remaining_count :: int
  retries :: int
  requests :: "page_request list"
  sleeps :: "int list"

datatype step =
    Continue fetch_state
  | Break fetch_state
  | Return_empty fetch_state
  | Raise exn fetch_state

text \<open>\<open>not next_token\<close>: no token, or the empty string.\<close>

definition falsy_token :: "string option \<Rightarrow> bool" where
  "falsy_token t = (case t of None \<Rightarrow> True | Some s \<Rightarrow> s = [])"

text \<open>
  One pass through the body of the \<open>while\<close> loop. An exception of \<open>time.sleep\<close> is
  raised inside the handler and leaves through the outer one. The exponent
  \<open>retries - 1\<close> is never negative, since \<open>retries\<close> starts at 0.
\<close>

definition loop_body :: "client \<Rightarrow> int \<Rightarrow> int \<Rightarrow> int \<Rightarrow> fetch_state \<Rightarrow> step" where
  "loop_body c uid cnt initial_wait s =
     (let batch_size = min (remaining_count s) 100;
          req = \<lparr>user_id = uid, max_results = batch_size,
                 pagination_token = next_token s\<rparr>;
          s1 = s\<lparr>requests := requests s @ [req]\<rparr>
      in case get_users_tweets c (length (requests s)) req of
           Inl e \<Rightarrow>
             if e = TooManyRequests then
               (let retries' = retries s + 1;
                    wait_time = initial_wait * 2 ^ nat (retries' - 1)
                in case time_sleep wait_time of
                     Some e' \<Rightarrow> Raise e' (s1\<lparr>retries := retries'\<rparr>)
                   | None \<Rightarrow>
                       Continue (s1\<lparr>retries := retries',
                                   sleeps := sleeps s @ [wait_time]\<rparr>))
             else if is_TweepyException e then Return_empty s1
             else Raise e s1
         | Inr resp \<Rightarrow>
             (case data resp of
                None \<Rightarrow> Break s1
              | Some ts \<Rightarrow>
                  if ts = [] then Break s1
                  else
                    (case tweet_dicts ts of
                       Inl e \<Rightarrow> Raise e s1
                     | Inr ds \<Rightarrow>
                         (let s2 = s1\<lparr>tweets := tweets s @ ds,
                                       remaining_count := remaining_count s - int (length ts),
                                       next_token := meta_next_token resp\<rparr>
                          in if falsy_token (next_token s2) \<or> cnt \<le> int (length (tweets s2))
                             then Break s2
                             else Continue s2))))"

definition loop_measure :: "int \<Rightarrow> fetch_state \<Rightarrow> nat" where
  "loop_measure max_retries s = nat (max_retries - retries s) + nat (remaining_count s)"

lemma loop_body_decreases:
  assumes "0 < remaining_count s" and "retries s < max_retries"
    and "loop_body c uid cnt initial_wait s = Continue s'"
  shows "loop_measure max_retries s' < loop_measure max_retries s"
  using assms
  by (auto simp: loop_body_def loop_measure_def Let_def
      split: sum.splits option.splits if_splits)

text \<open>The \<open>while\<close> loop: it ends by its condition, a \<open>break\<close>, a \<open>return\<close> or an exception.\<close>

function fetch_loop :: "client \<Rightarrow> int \<Rightarrow> int \<Rightarrow> int \<Rightarrow> int \<Rightarrow> fetch_state \<Rightarrow> step" where
  "fetch_loop c uid cnt max_retries initial_wait s =
     (if 0 < remaining_count s \<and> retries s < max_retries then
        (case loop_body c uid cnt initial_wait s of
           Continue s' \<Rightarrow> fetch_loop c uid cnt max_retries initial_wait s'
         | Break s' \<Rightarrow> Break s'
         | Return_empty s' \<Rightarrow> Return_empty s'
         | Raise e s' \<Rightarrow> Raise e s')
      else Break s)"
  by pat_completeness auto
termination
  by (relation "measure (\<lambda>(c, uid, cnt, max_retries, initial_wait, s).
        loop_measure max_retries s)")
     (auto intro: loop_body_decreases)

declare fetch_loop.simps [simp del]

definition initial_state :: "int \<Rightarrow> fetch_state" where
  "initial_state cnt =
     \<lparr>tweets = [], next_token = None, remaining_count = cnt, retries = 0,
      requests = [], sleeps = []\<rparr>"

text \<open>What a call leaves behind: the list returned and the two logs.\<close>

record fetch_result =
  returned :: "post list"
  page_requests :: "page_request list"
  sleep_log :: "int list"

definition after_loop :: "int \<Rightarrow> int \<Rightarrow> step \<Rightarrow> fetch_result" where
  "after_loop cnt max_retries st =
     (case st of
        Break s \<Rightarrow>
          \<lparr>returned = (if max_retries \<le> retries s then [] else py_slice_to (tweets s) cnt),
           page_requests = requests s, sleep_log = sleeps s\<rparr>
      | Continue s \<Rightarrow>
          \<lparr>returned = (if max_retries \<le> retries s then [] else py_slice_to (tweets s) cnt),
           page_requests = requests s, sleep_log = sleeps s\<rparr>
      | Return_empty s \<Rightarrow>
          \<lparr>returned = [], page_requests = requests s, sleep_log = sleeps s\<rparr>
      | Raise e s \<Rightarrow>
          \<lparr>returned = [], page_requests = requests s, sleep_log = sleeps s\<rparr>)"

definition get_user_tweets :: "client \<Rightarrow> string \<Rightarrow> int \<Rightarrow> int \<Rightarrow> int \<Rightarrow> fetch_result" where
  "get_user_tweets c username cnt max_retries initial_wait =
     (case get_user c username of
        Inl e \<Rightarrow> \<lparr>returned = [], page_requests = [], sleep_log = []\<rparr>
      | Inr None \<Rightarrow> \<lparr>returned = [], page_requests = [], sleep_log = []\<rparr>
      | Inr (Some uid) \<Rightarrow>
          after_loop cnt max_retries
            (fetch_loop c uid cnt max_retries initial_wait (initial_state cnt)))"

section \<open>The paginated fetcher of twitter\_etl.py\<close>

text \<open>
  The older variant of \<open>get_user_tweets\<close>. It takes \<open>max_retries\<close> and never reads it:
  there is no retry counter, the loop runs while \<open>remaining_count > 0\<close>, and every
  refusal is answered by sleeping the same \<open>wait_time\<close>. The only handler inside the loop
  is the one for \<open>TooManyRequests\<close>; every other exception leaves through the outer
  handler. The field \<open>retries\<close> of the state stays untouched.
\<close>

definition etl_loop_body :: "client \<Rightarrow> int \<Rightarrow> int \<Rightarrow> int \<Rightarrow> fetch_state \<Rightarrow> step" where
  "etl_loop_body c uid cnt wait_time s =
     (let batch_size = min (remaining_count s) 100;
          req = \<lparr>user_id = uid, max_results = batch_size,
                 pagination_token = next_token s\<rparr>;
          s1 = s\<lparr>requests := requests s @ [req]\<rparr>
      in case get_users_tweets c (length (requests s)) req of
           Inl e \<Rightarrow>
             if e = TooManyRequests then
               (case time_sleep wait_time of
                  Some e' \<Rightarrow> Raise e' s1
                | None \<Rightarrow> Continue (s1\<lparr>sleeps := sleeps s @ [wait_time]\<rparr>))
             else Raise e s1
         | Inr resp \<Rightarrow>
             (case data resp of
                None \<Rightarrow> Break s1
              | Some ts \<Rightarrow>
                  if ts = [] then Break s1
                  else
                    (case tweet_dicts ts of
                       Inl e \<Rightarrow> Raise e s1
                     | Inr ds \<Rightarrow>
                         (let s2 = s1\<lparr>tweets := tweets s @ ds,
                                       remaining_count := remaining_count s - int (length ts),
                                       next_token := meta_next_token resp\<rparr>
                          in if falsy_token (next_token s2) \<or> cnt \<le> int (length (tweets s2))
                             then Break s2
                             else Continue s2))))"

text \<open>This loop need not end: \<open>None\<close> is a run that never leaves it.\<close>

partial_function (option) etl_fetch_loop ::
  "client \<Rightarrow> int \<Rightarrow> int \<Rightarrow> int \<Rightarrow> fetch_state \<Rightarrow> step option" where
  "etl_fetch_loop c uid cnt wait_time s =
     (if 0 < remaining_count s then
        (case etl_loop_body c uid cnt wait_time s of
           Continue s' \<Rightarrow> etl_fetch_loop c uid cnt wait_time s'
         | Break s' \<Rightarrow> Some (Break s')
         | Return_empty s' \<Rightarrow> Some (Return_empty s')
         | Raise e s' \<Rightarrow> Some (Raise e s'))
      else Some (Break s))"

definition etl_after_loop :: "int \<Rightarrow> step \<Rightarrow> fetch_result" where
  "etl_after_loop cnt st =
     (case st of
        Break s \<Rightarrow>
          \<lparr>returned = py_slice_to (tweets s) cnt,
           page_requests = requests s, sleep_log = sleeps s\<rparr>
      | Continue s \<Rightarrow>
          \<lparr>returned = py_slice_to (tweets s) cnt,
           page_requests = requests s, sleep_log = sleeps s\<rparr>
      | Return_empty s \<Rightarrow>
          \<lparr>returned = [], page_requests = requests s, sleep_log = sleeps s\<rparr>
      | Raise e s \<Rightarrow>
          \<lparr>returned = [], page_requests = requests s, sleep_log = sleeps s\<rparr>)"

definition etl_get_user_tweets ::
  "client \<Rightarrow> string \<Rightarrow> int \<Rightarrow> int \<Rightarrow> int \<Rightarrow> fetch_result option" where
  "etl_get_user_tweets c username cnt max_retries wait_time =
     (case get_user c username of
        Inl e \<Rightarrow> Some \<lparr>returned = [], page_requests = [], sleep_log = []\<rparr>
      | Inr None \<Rightarrow> Some \<lparr>returned = [], page_requests = [], sleep_log = []\<rparr>
      | Inr (Some uid) \<Rightarrow>
          map_option (etl_after_loop cnt)
            (etl_fetch_loop c uid cnt wait_time (initial_state cnt)))"

section \<open>The transformer\<close>

text \<open>
  \<open>transform_tweets\<close> is the same text in p.py and in twitter\_etl.py. It works on a
  pandas DataFrame; the model keeps the table as the list of its rows and applies each
  column assignment to every row. What pandas does is modelled here from its
  documented behaviour, operation by operation.
\<close>

subsection \<open>Strings\<close>

text \<open>\<open>str(n)\<close> for an integer: decimal digits, a minus sign when negative.\<close>

function digits :: "nat \<Rightarrow> pystr" where
  "digits n = (if n < 10 then [48 + n] else digits (n div 10) @ [48 + n mod 10])"
  by pat_completeness auto
termination
  by (relation "measure id") auto

declare digits.simps [simp del]

definition py_str_int :: "int \<Rightarrow> pystr" where
  "py_str_int i = (if i < 0 then 45 # digits (nat (- i)) else digits (nat i))"

text \<open>\<open>.str.replace(old, new)\<close> for one-character \<open>old\<close> and \<open>new\<close>, as the job uses it.\<close>

definition str_replace :: "nat \<Rightarrow> nat \<Rightarrow> pystr \<Rightarrow> pystr" where
  "str_replace old new s = map (\<lambda>c. if c = old then new else c) s"

text \<open>The code points \<open>str.isspace\<close> accepts; \<open>str.strip()\<close> removes them at both ends.\<close>

definition py_isspace :: "nat \<Rightarrow> bool" where
  "py_isspace c \<longleftrightarrow>
     (9 \<le> c \<and> c \<le> 13) \<or> (28 \<le> c \<and> c \<le> 32) \<or> c = 133 \<or> c = 160 \<or> c = 5760 \<or>
     (8192 \<le> c \<and> c \<le> 8202) \<or> c = 8232 \<or> c = 8233 \<or> c = 8239 \<or> c = 8287 \<or> c = 12288"

definition str_strip :: "pystr \<Rightarrow> pystr" where
  "str_strip s = rev (dropWhile py_isspace (rev (dropWhile py_isspace s)))"

subsection \<open>Timestamps\<close>

text \<open>
  A parsed creation time is an instant: nanoseconds since 1970-01-01T00:00:00 UTC, the
  way a \<open>datetime64[ns, UTC]\<close> column stores it. \<open>None\<close> is \<open>NaT\<close>. The calendar date
  and the hour are computed from the instant (proleptic Gregorian calendar).
\<close>

definition dt_hour :: "int \<Rightarrow> int" where
  "dt_hour t = (t div 3600000000000) mod 24"

definition civil_from_days :: "int \<Rightarrow> int \<times> int \<times> int" where
  "civil_from_days days =
     (let z = days + 719468;
          era = z div 146097;
          doe = z - era * 146097;
          yoe = (doe - doe div 1460 + doe div 36524 - doe div 146096) div 365;
          doy = doe - (365 * yoe + yoe div 4 - yoe div 100);
          mp = (5 * doy + 2) div 153;
          d = doy - (153 * mp + 2) div 5 + 1;
          m = (if mp < 10 then mp + 3 else mp - 9);
          y = yoe + era * 400 + (if m \<le> 2 then 1 else 0)
      in (y, m, d))"

definition dt_date :: "int \<Rightarrow> int \<times> int \<times> int" where
  "dt_date t = civil_from_days (t div 86400000000000)"

text \<open>
  \<open>pd.to_datetime(..., errors='coerce')\<close>: a missing value stays missing, a datetime is
  kept, a string is parsed, and a string that does not parse becomes \<open>NaT\<close> instead of
  an exception. The string parser belongs to pandas and is a parameter here.
\<close>

definition to_datetime :: "(pystr \<Rightarrow> int option) \<Rightarrow> raw_time \<Rightarrow> int option" where
  "to_datetime parse v =
     (case v of NoTime \<Rightarrow> None | Datetime t \<Rightarrow> Some t | TimeString s \<Rightarrow> parse s)"

text \<open>
  One instance of the parser, for strings of the form \<open>YYYY-MM-DDTHH:MM:SSZ\<close>; it
  gives \<open>NaT\<close> for everything else and for instants outside the 64-bit nanosecond range.
\<close>

fun decimal :: "nat \<Rightarrow> pystr \<Rightarrow> nat option" where
  "decimal acc [] = Some acc"
| "decimal acc (c # cs) =
     (if 48 \<le> c \<and> c \<le> 57 then decimal (10 * acc + (c - 48)) cs else None)"

definition days_in_month :: "nat \<Rightarrow> nat \<Rightarrow> nat" where
  "days_in_month y m =
     (if m = 2 then (if y mod 4 = 0 \<and> (y mod 100 \<noteq> 0 \<or> y mod 400 = 0) then 29 else 28)
      else if m = 4 \<or> m = 6 \<or> m = 9 \<or> m = 11 then 30 else 31)"

definition days_from_civil :: "int \<Rightarrow> int \<Rightarrow> int \<Rightarrow> int" where
  "days_from_civil y m d =
     (let y' = (if m \<le> 2 then y - 1 else y);
          era = y' div 400;
          yoe = y' - era * 400;
          doy = (153 * (if 2 < m then m - 3 else m + 9) + 2) div 5 + d - 1;
          doe = yoe * 365 + yoe div 4 - yoe div 100 + doy
      in era * 146097 + doe - 719468)"

definition utc_instant :: "nat \<Rightarrow> nat \<Rightarrow> nat \<Rightarrow> nat \<Rightarrow> nat \<Rightarrow> nat \<Rightarrow> int" where
  "utc_instant y m d h mi sec =
     (((days_from_civil (int y) (int m) (int d) * 24 + int h) * 60 + int mi) * 60 + int sec)
       * 1000000000"

definition iso8601_utc :: "pystr \<Rightarrow> int option" where
  "iso8601_utc s =
     (if length s = 20 \<and> s ! 4 = 45 \<and> s ! 7 = 45 \<and> s ! 10 = 84 \<and> s ! 13 = 58 \<and>
         s ! 16 = 58 \<and> s ! 19 = 90
      then
        (case (decimal 0 (take 4 s), decimal 0 (take 2 (drop 5 s)),
               decimal 0 (take 2 (drop 8 s)), decimal 0 (take 2 (drop 11 s)),
               decimal 0 (take 2 (drop 14 s)), decimal 0 (take 2 (drop 17 s))) of
           (Some y, Some m, Some d, Some h, Some mi, Some sec) \<Rightarrow>
             if 1 \<le> m \<and> m \<le> 12 \<and> 1 \<le> d \<and> d \<le> days_in_month y m \<and>
                h < 24 \<and> mi < 60 \<and> sec < 60 \<and>
                - 9223372036854775808 < utc_instant y m d h mi sec \<and>
                utc_instant y m d h mi sec \<le> 9223372036854775807
             then Some (utc_instant y m d h mi sec)
             else None
         | _ \<Rightarrow> None)
      else None)"

subsection \<open>The table\<close>

record post_record =
  row_id :: pystr
  row_created_at :: "int option"
  row_text :: pystr
  row_likes :: int
  row_retweets :: int
  row_tweet_length :: int
  row_created_date :: "(int \<times> int \<times> int) option"
  row_created_hour :: "int option"

text \<open>\<open>.fillna(0).astype(int)\<close>: a missing key and a null value are both missing.\<close>

definition fillna0 :: "int option \<Rightarrow> int" where
  "fillna0 v = (case v of None \<Rightarrow> 0 | Some n \<Rightarrow> n)"

text \<open>The column assignments, in the order of the source, seen at one row.\<close>

definition transform_row :: "(pystr \<Rightarrow> int option) \<Rightarrow> post \<Rightarrow> post_record" where
  "transform_row parse p =
     (let id_str = py_str_int (raw_id p);
          created_at = to_datetime parse (raw_created_at p);
          likes = fillna0 (raw_likes p);
          retweets = fillna0 (raw_retweets p);
          txt = str_strip (str_replace 10 32 (raw_text p));
          tweet_length = int (length txt);
          created_date = map_option dt_date created_at;
          created_hour = map_option dt_hour created_at
      in \<lparr>row_id = id_str, row_created_at = created_at, row_text = txt,
          row_likes = likes, row_retweets = retweets, row_tweet_length = tweet_length,
          row_created_date = created_date, row_created_hour = created_hour\<rparr>)"

text \<open>
  \<open>sort_values(by='created_at', ascending=False)\<close>, with the default
  \<open>na_position='last'\<close>: the rows that have a time are reversed, sorted ascending and
  reversed again; the rows without one follow, in their original order. The default
  sorting algorithm of pandas does not promise an order among equal times; the model
  uses a stable sort there, and no result below depends on that choice.
\<close>

definition timed_rows :: "post_record list \<Rightarrow> (int \<times> post_record) list" where
  "timed_rows rows =
     concat (map (\<lambda>r. case row_created_at r of None \<Rightarrow> [] | Some t \<Rightarrow> [(t, r)]) rows)"

definition nat_rows :: "post_record list \<Rightarrow> post_record list" where
  "nat_rows rows = filter (\<lambda>r. row_created_at r = None) rows"

definition sort_values_desc :: "post_record list \<Rightarrow> post_record list" where
  "sort_values_desc rows =
     map snd (rev (sort_key fst (rev (timed_rows rows)))) @ nat_rows rows"

text \<open>
  An empty table is returned as it is (the derived columns are then never added, which
  a list of rows does not show); \<open>reset_index(drop=True)\<close> renumbers the rows, which
  are numbered by their position here.
\<close>

definition transform_tweets :: "(pystr \<Rightarrow> int option) \<Rightarrow> post list \<Rightarrow> post_record list" where
  "transform_tweets parse tweets_in =
     (if tweets_in = [] then []
      else sort_values_desc (map (transform_row parse) tweets_in))"

section \<open>The job driver\<close>

text \<open>
  What the job can touch besides the API: the Airflow variables, the constructor of the
  client, the date parser of pandas, the local write, the constructor of the S3 client
  and the S3 transfer (each either succeeds or raises).
\<close>

record environment =
  variable_get :: "string \<Rightarrow> exn + string"
  tweepy_Client :: "string \<Rightarrow> string \<Rightarrow> string \<Rightarrow> string \<Rightarrow> string \<Rightarrow> client"
  parse_datetime :: "pystr \<Rightarrow> int option"
  to_csv :: "string \<Rightarrow> post_record list \<Rightarrow> exn option"
  boto3_client :: "exn option"
  s3_upload_file :: "string \<Rightarrow> string \<Rightarrow> string \<Rightarrow> exn option"

text \<open>
  The world a run changes: the local files and the bucket (a file holds the table
  written to it), and logs of what was called. A write that raises is taken to leave
  the files as they were.
\<close>

record world =
  files :: "string \<Rightarrow> post_record list option"
  bucket_objects :: "string \<times> string \<Rightarrow> post_record list option"
  api_lookups :: "string list"
  api_page_requests :: "page_request list"
  slept :: "int list"
  transform_calls :: nat
  upload_attempts :: "(string \<times> string \<times> string) list"

text \<open>
  \<open>check_rate_limits\<close> of p.py. \<open>read_remaining\<close> is the body of its \<open>try\<close> once the
  status has arrived: the endpoint's entry is looked up, its \<open>remaining\<close> and \<open>reset\<close>
  values are read for the log line, and \<open>remaining\<close> is returned. Any exception, of the
  request or of a lookup, gives 0.
\<close>

definition read_remaining :: "json \<Rightarrow> exn + json" where
  "read_remaining status =
     (case subscript status ''resources'' of
        Inl e \<Rightarrow> Inl e
      | Inr resources \<Rightarrow>
          (case subscript resources ''users'' of
             Inl e \<Rightarrow> Inl e
           | Inr users \<Rightarrow>
               (case subscript users ''/users/:id/tweets'' of
                  Inl e \<Rightarrow> Inl e
                | Inr user_tweets_endpoint \<Rightarrow>
                    (case subscript user_tweets_endpoint ''remaining'' of
                       Inl e \<Rightarrow> Inl e
                     | Inr remaining \<Rightarrow>
                         (case subscript user_tweets_endpoint ''reset'' of
                            Inl e \<Rightarrow> Inl e
                          | Inr reset \<Rightarrow> Inr remaining)))))"

definition check_rate_limits :: "client \<Rightarrow> json" where
  "check_rate_limits c =
     (case get_rate_limit_status c of
        Inl e \<Rightarrow> JInt 0
      | Inr status \<Rightarrow>
          (case read_remaining status of
             Inl e \<Rightarrow> JInt 0
           | Inr remaining \<Rightarrow> remaining))"

text \<open>\<open>remaining_requests < 1\<close>: only a number compares with 1.\<close>

fun less_than_one :: "json \<Rightarrow> exn + bool" where
  "less_than_one (JInt n) = Inr (n < 1)"
| "less_than_one _ = Inl TypeError"

text \<open>
  \<open>upload_to_s3\<close>: the S3 client is built before the \<open>try\<close>; inside it the file must
  exist before the transfer is attempted, and both handlers log and raise again.
\<close>

definition upload_to_s3 ::
  "environment \<Rightarrow> string \<Rightarrow> string \<Rightarrow> string \<Rightarrow> world \<Rightarrow> (exn + unit) \<times> world" where
  "upload_to_s3 env local_file bucket_name s3_file w =
     (case boto3_client env of
        Some e \<Rightarrow> (Inl e, w)
      | None \<Rightarrow>
          (case files w local_file of
             None \<Rightarrow>
               (Inl (FileNotFoundError (''Local file '' @ local_file @ '' does not exist.'')),
                w)
           | Some content \<Rightarrow>
               (let w1 = w\<lparr>upload_attempts :=
                             upload_attempts w @ [(local_file, bucket_name, s3_file)]\<rparr>
                in case s3_upload_file env local_file bucket_name s3_file of
                     Some e \<Rightarrow> (Inl e, w1)
                   | None \<Rightarrow>
                       (Inr (),
                        w1\<lparr>bucket_objects :=
                             (bucket_objects w1)((bucket_name, s3_file) \<mapsto> content)\<rparr>))))"

text \<open>The five variables, read in the order of the source; the first failure is raised.\<close>

definition load_credentials ::
  "environment \<Rightarrow> exn + (string \<times> string \<times> string \<times> string \<times> string)" where
  "load_credentials env =
     (case variable_get env ''twitter_bearer_token'' of
        Inl e \<Rightarrow> Inl e
      | Inr bearer_token \<Rightarrow>
     (case variable_get env ''twitter_api_key'' of
        Inl e \<Rightarrow> Inl e
      | Inr api_key \<Rightarrow>
     (case variable_get env ''twitter_api_key_secret'' of
        Inl e \<Rightarrow> Inl e
      | Inr api_key_secret \<Rightarrow>
     (case variable_get env ''twitter_access_token'' of
        Inl e \<Rightarrow> Inl e
      | Inr access_token \<Rightarrow>
     (case variable_get env ''twitter_access_token_secret'' of
        Inl e \<Rightarrow> Inl e
      | Inr access_token_secret \<Rightarrow>
          Inr (bearer_token, api_key, api_key_secret, access_token,
               access_token_secret))))))"

text \<open>
  From the fetch on, p.py and twitter\_etl.py are the same: the call with the defaults
  of the fetcher, and then the transformer and the sink, or the failure of the task.
  \<open>after_fetch\<close> is that common part, given what the fetch did.
\<close>

definition after_fetch :: "environment \<Rightarrow> fetch_result \<Rightarrow> world \<Rightarrow> (exn + unit) \<times> world" where
  "after_fetch env r w =
     (let w1 = w\<lparr>api_lookups := api_lookups w @ [''NASA''],
                  api_page_requests := api_page_requests w @ page_requests r,
                  slept := slept w @ sleep_log r\<rparr>
      in if returned r \<noteq> [] then
           (let df = transform_tweets (parse_datetime env) (returned r);
                w2 = w1\<lparr>transform_calls := transform_calls w1 + 1\<rparr>;
                local_path = ''/tmp/tweets.csv''
            in case to_csv env local_path df of
                 Some e \<Rightarrow> (Inl e, w2)
               | None \<Rightarrow>
                   upload_to_s3 env local_path ''airfloe-kini'' ''twitter_data/tweets.csv''
                     (w2\<lparr>files := (files w2)(local_path \<mapsto> df)\<rparr>))
         else (Inl (ValueError ''No tweets fetched, failing task.''), w1))"

text \<open>\<open>run_twitter_etl\<close> of p.py.\<close>

definition run_twitter_etl :: "environment \<Rightarrow> world \<Rightarrow> (exn + unit) \<times> world" where
  "run_twitter_etl env w =
     (case load_credentials env of
        Inl e \<Rightarrow> (Inl e, w)
      | Inr (bearer_token, api_key, api_key_secret, access_token, access_token_secret) \<Rightarrow>
          (let c = tweepy_Client env bearer_token api_key api_key_secret access_token
                     access_token_secret;
               remaining_requests = check_rate_limits c
           in case less_than_one remaining_requests of
                Inl e \<Rightarrow> (Inl e, w)
              | Inr True \<Rightarrow> (Inl (ValueError ''Rate limit exhausted.''), w)
              | Inr False \<Rightarrow> after_fetch env (get_user_tweets c ''NASA'' 5 3 60) w))"

text \<open>
  \<open>run_twitter_etl\<close> of twitter\_etl.py: the client is built from credentials written
  in the file (\<open>c\<close> here), there is no quota check, and the fetcher is the older one
  with its defaults. A fetch that never returns gives a run that never returns.
\<close>

definition etl_run_twitter_etl ::
  "environment \<Rightarrow> client \<Rightarrow> world \<Rightarrow> ((exn + unit) \<times> world) option" where
  "etl_run_twitter_etl env c w =
     map_option (\<lambda>r. after_fetch env r w) (etl_get_user_tweets c ''NASA'' 5 3 900)"

section \<open>Sample environments\<close>

definition quota_status :: "int \<Rightarrow> json" where
  "quota_status n =
     JObj [(''resources'', JObj [(''users'', JObj [(''/users/:id/tweets'',
        JObj [(''limit'', JInt 900), (''remaining'', JInt n), (''reset'', JInt 1700000000)])])])]"

definition sample_tweet :: "int \<Rightarrow> tweet" where
  "sample_tweet i =
     \<lparr>tweet_id = i, tweet_created_at = Datetime (1704103200000000000 + i),
      tweet_text = ascii ''hello'',
      public_metrics = Some [(''like_count'', 7), (''retweet_count'', 2)]\<rparr>"

definition limited_client :: client where
  "limited_client =
     \<lparr>get_rate_limit_status = Inr (quota_status 10),
      get_user = (\<lambda>u. Inr (Some 11348282)),
      get_users_tweets = (\<lambda>n req. Inl TooManyRequests)\<rparr>"

definition flaky_client :: client where
  "flaky_client =
     \<lparr>get_rate_limit_status = Inr (quota_status 10),
      get_user = (\<lambda>u. Inr (Some 11348282)),
      get_users_tweets = (\<lambda>n req.
         if n = 0 then Inr \<lparr>data = Some [sample_tweet 1, sample_tweet 2],
                             meta_next_token = Some ''t1''\<rparr>
         else Inl TooManyRequests)\<rparr>"

definition healthy_client :: client where
  "healthy_client =
     \<lparr>get_rate_limit_status = Inr (quota_status 10),
      get_user = (\<lambda>u. Inr (Some 11348282)),
      get_users_tweets = (\<lambda>n req.
         Inr \<lparr>data = Some [sample_tweet 1, sample_tweet 2, sample_tweet 3],
              meta_next_token = None\<rparr>)\<rparr>"

text \<open>Three posts: the one of the specification's scenario, an older one, and one whose
  creation time does not parse.\<close>

definition scenario_post :: post where
  "scenario_post =
     \<lparr>raw_id = 1, raw_created_at = TimeString (ascii ''2024-01-01T10:00:00Z''),
      raw_text = [97, 10, 98], raw_likes = None, raw_retweets = Some 5\<rparr>"

definition older_post :: post where
  "older_post =
     \<lparr>raw_id = 2, raw_created_at = Datetime 1686817800000000000,
      raw_text = ascii '' launch day  '', raw_likes = Some 12, raw_retweets = None\<rparr>"

definition undated_post :: post where
  "undated_post =
     \<lparr>raw_id = 3, raw_created_at = TimeString (ascii ''yesterday''),
      raw_text = ascii ''no date'', raw_likes = Some 4, raw_retweets = Some 1\<rparr>"

text \<open>A client that refuses the first two page requests and then serves one page.\<close>

definition recovering_client :: client where
  "recovering_client =
     \<lparr>get_rate_limit_status = Inr (quota_status 10),
      get_user = (\<lambda>u. Inr (Some 11348282)),
      get_users_tweets = (\<lambda>n req.
         if n < 2 then Inl TooManyRequests
         else Inr \<lparr>data = Some [sample_tweet 1], meta_next_token = None\<rparr>)\<rparr>"

text \<open>An account without posts, and a client whose status request fails.\<close>

definition silent_client :: client where
  "silent_client =
     \<lparr>get_rate_limit_status = Inr (quota_status 10),
      get_user = (\<lambda>u. Inr (Some 11348282)),
      get_users_tweets = (\<lambda>n req. Inr \<lparr>data = None, meta_next_token = None\<rparr>)\<rparr>"

definition unchecked_client :: client where
  "unchecked_client = healthy_client\<lparr>get_rate_limit_status := Inl Exception\<rparr>"

text \<open>An environment in which everything outside the API works, and a world with no
  files and no objects.\<close>

definition sample_env :: "client \<Rightarrow> environment" where
  "sample_env c =
     \<lparr>variable_get = (\<lambda>k. Inr (''value of '' @ k)),
      tweepy_Client =
        (\<lambda>bearer_token api_key api_key_secret access_token access_token_secret. c),
      parse_datetime = iso8601_utc,
      to_csv = (\<lambda>path df. None),
      boto3_client = None,
      s3_upload_file = (\<lambda>local_file bucket_name s3_file. None)\<rparr>"

definition empty_world :: world where
  "empty_world =
     \<lparr>files = (\<lambda>p. None), bucket_objects = (\<lambda>k. None), api_lookups = [],
      api_page_requests = [], slept = [], transform_calls = 0, upload_attempts = []\<rparr>"

section \<open>Invariants of the fetch loop\<close>

fun state_of :: "step \<Rightarrow> fetch_state" where
  "state_of (Continue s) = s"
| "state_of (Break s) = s"
| "state_of (Return_empty s) = s"
| "state_of (Raise e s) = s"

definition loop_inv :: "int \<Rightarrow> int \<Rightarrow> int \<Rightarrow> fetch_state \<Rightarrow> bool" where
  "loop_inv initial_wait max_retries cnt s \<longleftrightarrow>
     0 \<le> retries s \<and> retries s \<le> max 0 max_retries \<and>
     sleeps s = map (\<lambda>k. initial_wait * 2 ^ k) [0..<nat (retries s)] \<and>
     int (length (requests s)) + int (nat (remaining_count s)) \<le> retries s + int (nat cnt)"

definition loop_post :: "int \<Rightarrow> int \<Rightarrow> int \<Rightarrow> fetch_state \<Rightarrow> bool" where
  "loop_post initial_wait max_retries cnt s \<longleftrightarrow>
     sleeps s = map (\<lambda>k. initial_wait * 2 ^ k) [0..<length (sleeps s)] \<and>
     int (length (sleeps s)) \<le> max 0 max_retries \<and>
     int (length (sleeps s)) \<le> retries s \<and>
     int (length (requests s)) \<le> max 0 max_retries + max 0 cnt"

text \<open>Every page request is refused.\<close>

definition always_limited :: "client \<Rightarrow> bool" where
  "always_limited c \<longleftrightarrow> (\<forall>n req. get_users_tweets c n req = Inl TooManyRequests)"

section \<open>Properties of the fetcher of p.py\<close>

lemma loop_inv_initial: "loop_inv initial_wait max_retries cnt (initial_state cnt)"
  by (simp add: loop_inv_def initial_state_def)

lemma loop_inv_post:
  assumes "loop_inv initial_wait max_retries cnt s"
  shows "loop_post initial_wait max_retries cnt s"
proof -
  from assms have r: "0 \<le> retries s" "retries s \<le> max 0 max_retries"
    and sl: "sleeps s = map (\<lambda>k. initial_wait * 2 ^ k) [0..<nat (retries s)]"
    and rq: "int (length (requests s)) + int (nat (remaining_count s))
               \<le> retries s + int (nat cnt)"
    by (simp_all add: loop_inv_def)
  have len: "length (sleeps s) = nat (retries s)"
    by (subst sl) simp
  have "int (length (requests s)) \<le> max 0 max_retries + max 0 cnt"
    using r rq by linarith
  moreover have "sleeps s = map (\<lambda>k. initial_wait * 2 ^ k) [0..<length (sleeps s)]"
    using sl len by simp
  ultimately show ?thesis
    using r len by (simp add: loop_post_def)
qed

lemma nonempty_length: "xs \<noteq> [] \<Longrightarrow> 1 \<le> int (length xs)"
  by (cases xs) auto

lemma loop_body_Continue_inv:
  assumes "loop_inv initial_wait max_retries cnt s"
    and "0 < remaining_count s" and "retries s < max_retries"
    and "loop_body c uid cnt initial_wait s = Continue s'"
  shows "loop_inv initial_wait max_retries cnt s'"
  using assms
  by (auto simp: loop_body_def loop_inv_def Let_def nat_add_distrib
      split: sum.splits option.splits if_splits dest: nonempty_length)

lemma loop_body_exit_post:
  assumes "loop_inv initial_wait max_retries cnt s"
    and "0 < remaining_count s" and "retries s < max_retries"
    and "loop_body c uid cnt initial_wait s = st" and "\<forall>s'. st \<noteq> Continue s'"
  shows "loop_post initial_wait max_retries cnt (state_of st)"
  using assms
  by (auto simp: loop_body_def loop_inv_def loop_post_def Let_def
      split: sum.splits option.splits if_splits)

lemma fetch_loop_post:
  "loop_inv initial_wait max_retries cnt s \<Longrightarrow>
   loop_post initial_wait max_retries cnt
     (state_of (fetch_loop c uid cnt max_retries initial_wait s))"
proof (induction c uid cnt max_retries initial_wait s rule: fetch_loop.induct)
  case (1 c uid cnt max_retries initial_wait s)
  show ?case
  proof (cases "0 < remaining_count s \<and> retries s < max_retries")
    case False
    then show ?thesis
      using "1.prems" by (subst fetch_loop.simps) (auto simp: loop_inv_post)
  next
    case True
    show ?thesis
    proof (cases "\<exists>s'. loop_body c uid cnt initial_wait s = Continue s'")
      case True
      then obtain s' where c: "loop_body c uid cnt initial_wait s = Continue s'" by blast
      with \<open>0 < remaining_count s \<and> retries s < max_retries\<close> "1.prems"
      have "loop_inv initial_wait max_retries cnt s'"
        by (blast intro: loop_body_Continue_inv)
      with "1.IH" [OF \<open>0 < remaining_count s \<and> retries s < max_retries\<close> c]
      show ?thesis
        using \<open>0 < remaining_count s \<and> retries s < max_retries\<close> c
        by (subst fetch_loop.simps) simp
    next
      case False
      with \<open>0 < remaining_count s \<and> retries s < max_retries\<close> "1.prems"
      have "loop_post initial_wait max_retries cnt (state_of (loop_body c uid cnt initial_wait s))"
        by (blast intro: loop_body_exit_post)
      moreover have "fetch_loop c uid cnt max_retries initial_wait s = loop_body c uid cnt initial_wait s"
        using False \<open>0 < remaining_count s \<and> retries s < max_retries\<close>
        by (subst fetch_loop.simps) (auto split: step.splits)
      ultimately show ?thesis by simp
    qed
  qed
qed


lemma fetch_loop_stop:
  "\<not> (0 < remaining_count s \<and> retries s < max_retries) \<Longrightarrow>
   fetch_loop c uid cnt max_retries initial_wait s = Break s"
  by (subst fetch_loop.simps) auto

lemma py_slice_to_length: "0 \<le> n \<Longrightarrow> int (length (py_slice_to xs n)) \<le> n"
  by (simp add: py_slice_to_def)

lemma py_slice_to_Nil: "py_slice_to [] n = []"
  by (simp add: py_slice_to_def)

lemma after_loop_logs:
  "page_requests (after_loop cnt max_retries st) = requests (state_of st)"
  "sleep_log (after_loop cnt max_retries st) = sleeps (state_of st)"
  by (cases st; simp add: after_loop_def)+

lemma after_loop_length:
  "0 \<le> cnt \<Longrightarrow> int (length (returned (after_loop cnt max_retries st))) \<le> cnt"
  by (cases st) (simp_all add: after_loop_def py_slice_to_length)

lemma after_loop_exhausted:
  "max_retries \<le> retries (state_of st) \<Longrightarrow> returned (after_loop cnt max_retries st) = []"
  by (cases st) (simp_all add: after_loop_def)

lemma get_user_tweets_nonpositive:
  assumes "cnt \<le> 0"
  shows "get_user_tweets c username cnt max_retries initial_wait =
           \<lparr>returned = [], page_requests = [], sleep_log = []\<rparr>"
proof -
  have "fetch_loop c uid cnt max_retries initial_wait (initial_state cnt) =
          Break (initial_state cnt)" for uid
    using assms by (intro fetch_loop_stop) (simp add: initial_state_def)
  then show ?thesis
    by (simp add: get_user_tweets_def after_loop_def initial_state_def py_slice_to_Nil
        split: sum.splits option.splits)
qed

lemma get_user_tweets_length:
  "int (length (returned (get_user_tweets c username cnt max_retries initial_wait))) \<le> max 0 cnt"
proof (cases "cnt \<le> 0")
  case True
  then show ?thesis by (simp add: get_user_tweets_nonpositive)
next
  case False
  then have "0 \<le> cnt" by simp
  then show ?thesis
    by (simp add: get_user_tweets_def after_loop_length split: sum.splits option.splits)
qed

lemma get_user_tweets_post:
  "\<exists>s. loop_post initial_wait max_retries cnt s \<and>
       page_requests (get_user_tweets c username cnt max_retries initial_wait) = requests s \<and>
       sleep_log (get_user_tweets c username cnt max_retries initial_wait) = sleeps s"
proof (cases "\<exists>uid. get_user c username = Inr (Some uid)")
  case True
  then obtain uid where "get_user c username = Inr (Some uid)" by blast
  then show ?thesis
    using fetch_loop_post [OF loop_inv_initial, of initial_wait max_retries cnt c uid]
    by (auto simp: get_user_tweets_def after_loop_logs)
next
  case False
  have "loop_post initial_wait max_retries cnt (initial_state 0)"
    by (simp add: loop_post_def initial_state_def)
  with False show ?thesis
    by (intro exI [of _ "initial_state 0"])
       (auto simp: get_user_tweets_def initial_state_def split: sum.splits option.splits)
qed


lemma get_user_tweets_sleep_bound:
  "int (length (sleep_log (get_user_tweets c username cnt max_retries initial_wait)))
     \<le> max 0 max_retries"
  using get_user_tweets_post [of initial_wait max_retries cnt c username]
  by (auto simp: loop_post_def)

lemma get_user_tweets_request_bound:
  "int (length (page_requests (get_user_tweets c username cnt max_retries initial_wait)))
     \<le> max 0 max_retries + max 0 cnt"
  using get_user_tweets_post [of initial_wait max_retries cnt c username]
  by (auto simp: loop_post_def)










lemma limited_client_always: "always_limited limited_client"
  by (simp add: always_limited_def limited_client_def)

lemma limited_client_run:
  "get_user_tweets limited_client ''NASA'' 5 3 60 =
     \<lparr>returned = [],
      page_requests = replicate 3 \<lparr>user_id = 11348282, max_results = 5, pagination_token = None\<rparr>,
      sleep_log = [60, 120, 240]\<rparr>"
  by (simp add: get_user_tweets_def limited_client_def fetch_loop.simps loop_body_def
      initial_state_def after_loop_def Let_def numeral_3_eq_3 time_sleep_def)

lemma flaky_client_loop:
  "fetch_loop flaky_client 11348282 5 3 60 (initial_state 5) =
     Break \<lparr>tweets = [\<lparr>raw_id = 1, raw_created_at = Datetime 1704103200000000001,
                        raw_text = ascii ''hello'', raw_likes = Some 7, raw_retweets = Some 2\<rparr>,
                      \<lparr>raw_id = 2, raw_created_at = Datetime 1704103200000000002,
                        raw_text = ascii ''hello'', raw_likes = Some 7, raw_retweets = Some 2\<rparr>],
            next_token = Some ''t1'', remaining_count = 3, retries = 3,
            requests = [\<lparr>user_id = 11348282, max_results = 5, pagination_token = None\<rparr>,
                        \<lparr>user_id = 11348282, max_results = 3, pagination_token = Some ''t1''\<rparr>,
                        \<lparr>user_id = 11348282, max_results = 3, pagination_token = Some ''t1''\<rparr>,
                        \<lparr>user_id = 11348282, max_results = 3, pagination_token = Some ''t1''\<rparr>],
            sleeps = [60, 120, 240]\<rparr>"
  by (simp add: flaky_client_def fetch_loop.simps loop_body_def initial_state_def Let_def
      sample_tweet_def tweet_dict_def falsy_token_def time_sleep_def)

lemma get_user_tweets_single_page:
  assumes "get_user c username = Inr (Some uid)"
    and "get_users_tweets c 0 \<lparr>user_id = uid, max_results = min cnt 100, pagination_token = None\<rparr>
           = Inr \<lparr>data = Some ts, meta_next_token = None\<rparr>"
    and "ts \<noteq> []" and "tweet_dicts ts = Inr ds" and "0 < cnt" and "0 < max_retries"
  shows "returned (get_user_tweets c username cnt max_retries initial_wait) = take (nat cnt) ds"
proof -
  have body: "loop_body c uid cnt initial_wait (initial_state cnt) =
      Break ((initial_state cnt)\<lparr>requests :=
                  [\<lparr>user_id = uid, max_results = min cnt 100, pagination_token = None\<rparr>],
                tweets := ds, remaining_count := cnt - int (length ts),
                next_token := None\<rparr>)"
    using assms by (simp add: loop_body_def initial_state_def Let_def falsy_token_def)
  have "fetch_loop c uid cnt max_retries initial_wait (initial_state cnt) =
      Break ((initial_state cnt)\<lparr>requests :=
                  [\<lparr>user_id = uid, max_results = min cnt 100, pagination_token = None\<rparr>],
                tweets := ds, remaining_count := cnt - int (length ts),
                next_token := None\<rparr>)"
    using assms by (subst fetch_loop.simps) (simp add: body, simp add: initial_state_def)
  then show ?thesis
    using assms by (simp add: get_user_tweets_def after_loop_def initial_state_def py_slice_to_def)
qed

text \<open>
  The loop of p.py always ends: \<open>fetch_loop\<close> is a total function, it is left as soon
  as its condition fails, and a run sleeps at most \<open>max_retries\<close> times and sends at most
  \<open>max_retries + cnt\<close> page requests.
\<close>

lemma fetch_loop_bounded:
  "(\<not> (0 < remaining_count s \<and> retries s < max_retries) \<longrightarrow>
      fetch_loop c uid cnt max_retries initial_wait s = Break s) \<and>
   int (length (sleep_log (get_user_tweets c username cnt max_retries initial_wait)))
     \<le> max 0 max_retries \<and>
   int (length (page_requests (get_user_tweets c username cnt max_retries initial_wait)))
     \<le> max 0 max_retries + max 0 cnt"
  using fetch_loop_stop [of s max_retries c uid cnt initial_wait]
    get_user_tweets_sleep_bound [of c username cnt max_retries initial_wait]
    get_user_tweets_request_bound [of c username cnt max_retries initial_wait]
  by blast

section \<open>Properties of the fetcher of twitter\_etl.py\<close>

lemma etl_fetch_loop_stop:
  "\<not> 0 < remaining_count s \<Longrightarrow> etl_fetch_loop c uid cnt wait_time s = Some (Break s)"
  by (subst etl_fetch_loop.simps) simp

lemma etl_get_user_tweets_nonpositive:
  assumes "cnt \<le> 0"
  shows "etl_get_user_tweets c username cnt max_retries wait_time =
           Some \<lparr>returned = [], page_requests = [], sleep_log = []\<rparr>"
proof -
  have "etl_fetch_loop c uid cnt wait_time (initial_state cnt) =
          Some (Break (initial_state cnt))" for uid
    using assms by (intro etl_fetch_loop_stop) (simp add: initial_state_def)
  then show ?thesis
    by (simp add: etl_get_user_tweets_def etl_after_loop_def initial_state_def py_slice_to_def
        split: sum.splits option.splits)
qed

lemma etl_after_loop_length:
  "0 \<le> cnt \<Longrightarrow> int (length (returned (etl_after_loop cnt st))) \<le> cnt"
  by (cases st) (simp_all add: etl_after_loop_def py_slice_to_length)

lemma etl_get_user_tweets_length:
  assumes "etl_get_user_tweets c username cnt max_retries wait_time = Some r"
  shows "int (length (returned r)) \<le> max 0 cnt"
proof (cases "cnt \<le> 0")
  case True
  with assms show ?thesis by (auto simp: etl_get_user_tweets_nonpositive)
next
  case False
  then have "0 \<le> cnt" by simp
  with assms show ?thesis
    by (auto simp: etl_get_user_tweets_def etl_after_loop_length
        split: sum.splits option.splits)
qed

text \<open>
  Refused at every page request, this fetcher never returns: each refusal is followed
  by a sleep and the same request, and nothing counts them.
\<close>

lemma etl_loop_body_limited:
  assumes "always_limited c" and "time_sleep wait_time = None"
  shows "etl_loop_body c uid cnt wait_time s =
     Continue (s\<lparr>requests := requests s @
                   [\<lparr>user_id = uid, max_results = min (remaining_count s) 100,
                     pagination_token = next_token s\<rparr>],
                 sleeps := sleeps s @ [wait_time]\<rparr>)"
  using assms by (simp add: etl_loop_body_def always_limited_def Let_def)

lemma etl_fetch_loop_limited_aux:
  assumes "etl_fetch_loop c uid cnt wait_time s = Some st"
  shows "\<not> (always_limited c \<and> time_sleep wait_time = None \<and> 0 < remaining_count s)"
  using assms
proof (rule etl_fetch_loop.raw_induct [rotated 1,
      where P = "\<lambda>c uid cnt wait_time s st.
        \<not> (always_limited c \<and> time_sleep wait_time = None \<and> 0 < remaining_count s)"])
  fix f c uid cnt wait_time s st
  assume IH: "\<And>c uid cnt wait_time s st. f c uid cnt wait_time s = Some st \<Longrightarrow>
      \<not> (always_limited c \<and> time_sleep wait_time = None \<and> 0 < remaining_count s)"
    and eq: "(if 0 < remaining_count s
        then case etl_loop_body c uid cnt wait_time s of
               Continue s' \<Rightarrow> f c uid cnt wait_time s'
             | Break s' \<Rightarrow> Some (Break s')
             | Return_empty s' \<Rightarrow> Some (Return_empty s')
             | Raise e s' \<Rightarrow> Some (Raise e s')
        else Some (Break s)) = Some st"
  show "\<not> (always_limited c \<and> time_sleep wait_time = None \<and> 0 < remaining_count s)"
  proof
    assume a: "always_limited c \<and> time_sleep wait_time = None \<and> 0 < remaining_count s"
    define s' where "s' = s\<lparr>requests := requests s @
                   [\<lparr>user_id = uid, max_results = min (remaining_count s) 100,
                     pagination_token = next_token s\<rparr>],
                 sleeps := sleeps s @ [wait_time]\<rparr>"
    from a have body: "etl_loop_body c uid cnt wait_time s = Continue s'"
      unfolding s'_def by (intro etl_loop_body_limited) simp_all
    with a eq have fs: "f c uid cnt wait_time s' = Some st" by simp
    have "\<not> (always_limited c \<and> time_sleep wait_time = None \<and> 0 < remaining_count s')"
      by (rule IH [OF fs])
    moreover have "remaining_count s' = remaining_count s" by (simp add: s'_def)
    ultimately show False using a by simp
  qed
qed

lemma etl_fetch_loop_limited:
  "always_limited c \<Longrightarrow> time_sleep wait_time = None \<Longrightarrow> 0 < remaining_count s \<Longrightarrow>
   etl_fetch_loop c uid cnt wait_time s = None"
  using etl_fetch_loop_limited_aux [of c uid cnt wait_time s] by (cases "etl_fetch_loop c uid cnt wait_time s") auto

lemma etl_get_user_tweets_limited:
  assumes "always_limited c" and "get_user c username = Inr (Some uid)"
    and "0 < cnt" and "time_sleep wait_time = None"
  shows "etl_get_user_tweets c username cnt max_retries wait_time = None"
  using assms etl_fetch_loop_limited [of c wait_time "initial_state cnt" uid cnt]
  by (simp add: etl_get_user_tweets_def initial_state_def)





text \<open>
  The two fetchers on a client that refuses twice and then serves a page: the same
  posts, after sleeps of 900 and 900 seconds in one, of 60 and 120 in the other.
\<close>

lemma recovering_client_etl:
  "etl_get_user_tweets recovering_client ''NASA'' 5 3 900 =
     Some \<lparr>returned = [\<lparr>raw_id = 1, raw_created_at = Datetime 1704103200000000001,
                         raw_text = ascii ''hello'', raw_likes = Some 7, raw_retweets = Some 2\<rparr>],
           page_requests = replicate 3 \<lparr>user_id = 11348282, max_results = 5, pagination_token = None\<rparr>,
           sleep_log = [900, 900]\<rparr>"
  by (simp add: etl_get_user_tweets_def recovering_client_def etl_fetch_loop.simps
      etl_loop_body_def initial_state_def etl_after_loop_def Let_def sample_tweet_def
      tweet_dict_def falsy_token_def py_slice_to_def numeral_3_eq_3 time_sleep_def)


section \<open>Properties of the transformer\<close>

lemma timed_rows_snd:
  "map snd (timed_rows rows) = filter (\<lambda>r. row_created_at r \<noteq> None) rows"
  by (induction rows) (auto simp: timed_rows_def split: option.splits)

lemma timed_rows_consistent:
  "(t, r) \<in> set (timed_rows rows) \<Longrightarrow> row_created_at r = Some t"
  by (induction rows) (auto simp: timed_rows_def split: option.splits)

lemma mset_filter_partition:
  "mset (filter P xs) + mset (filter (\<lambda>x. \<not> P x) xs) = mset xs"
  by (induction xs) auto

lemma mset_sort_values_desc: "mset (sort_values_desc rows) = mset rows"
proof -
  have "mset (map snd (rev (sort_key fst (rev (timed_rows rows))))) =
        mset (map snd (timed_rows rows))"
    by simp
  also have "\<dots> = mset (filter (\<lambda>r. row_created_at r \<noteq> None) rows)"
    by (simp add: timed_rows_snd)
  finally show ?thesis
    using mset_filter_partition [of "\<lambda>r. row_created_at r \<noteq> None" rows]
    by (simp add: sort_values_desc_def nat_rows_def)
qed

lemma sorted_desc_timed:
  "sorted_wrt (\<lambda>a b. b \<le> a) (map fst (rev (sort_key fst (rev xs))))"
proof -
  have "sorted (map fst (sort_key fst (rev xs)))"
    by (rule sorted_sort_key)
  then have "sorted_wrt (\<lambda>a b. b \<le> a) (rev (map fst (sort_key fst (rev xs))))"
    by (simp add: sorted_wrt_rev)
  then show ?thesis by (simp add: rev_map)
qed

lemma sorted_part_times:
  "map row_created_at (map snd (rev (sort_key fst (rev (timed_rows rows))))) =
   map Some (map fst (rev (sort_key fst (rev (timed_rows rows)))))"
proof -
  have "\<forall>x\<in>set (rev (sort_key fst (rev (timed_rows rows)))). row_created_at (snd x) = Some (fst x)"
    using timed_rows_consistent [of _ _ rows] by auto
  then show ?thesis by (simp add: comp_def)
qed

lemma sort_values_desc_split:
  "\<exists>ts. map row_created_at (sort_values_desc rows) =
          map Some ts @ replicate (length (nat_rows rows)) None \<and>
        sorted_wrt (\<lambda>a b. b \<le> a) ts"
proof -
  let ?ts = "map fst (rev (sort_key fst (rev (timed_rows rows))))"
  have "map row_created_at (nat_rows rows) = replicate (length (nat_rows rows)) None"
    by (induction rows) (auto simp: nat_rows_def)
  then have "map row_created_at (sort_values_desc rows) =
          map Some ?ts @ replicate (length (nat_rows rows)) None"
    using sorted_part_times [of rows] by (simp add: sort_values_desc_def)
  then show ?thesis using sorted_desc_timed [of "timed_rows rows"] by blast
qed


lemma append_nth_order:
  assumes "\<forall>x\<in>set vs. P x" and "\<forall>x\<in>set ns. \<not> P x"
    and "i < length (vs @ ns)" and "j < length (vs @ ns)"
    and "\<not> P ((vs @ ns) ! i)" and "P ((vs @ ns) ! j)"
  shows "j < i"
proof -
  have "length vs \<le> i"
  proof (rule ccontr)
    assume "\<not> length vs \<le> i"
    then have "(vs @ ns) ! i \<in> set vs" by (simp add: nth_append)
    with assms(1,5) show False by blast
  qed
  moreover have "j < length vs"
  proof (rule ccontr)
    assume "\<not> j < length vs"
    then have "(vs @ ns) ! j \<in> set ns"
      using assms(4) by (simp add: nth_append)
    with assms(2,6) show False by blast
  qed
  ultimately show ?thesis by linarith
qed

lemma sort_values_desc_parts:
  "\<exists>vs. sort_values_desc rows = vs @ nat_rows rows \<and> (\<forall>r\<in>set vs. row_created_at r \<noteq> None)"
proof -
  define vs where "vs = map snd (rev (sort_key fst (rev (timed_rows rows))))"
  have "\<forall>r\<in>set vs. row_created_at r \<noteq> None"
    unfolding vs_def using timed_rows_consistent [of _ _ rows] by auto
  moreover have "sort_values_desc rows = vs @ nat_rows rows"
    by (simp add: sort_values_desc_def vs_def)
  ultimately show ?thesis by blast
qed

lemma sort_values_desc_nat_last:
  assumes "i < length (sort_values_desc rows)" and "j < length (sort_values_desc rows)"
    and "row_created_at (sort_values_desc rows ! i) = None"
    and "row_created_at (sort_values_desc rows ! j) \<noteq> None"
  shows "j < i"
proof -
  obtain vs where vs: "sort_values_desc rows = vs @ nat_rows rows"
    "\<forall>r\<in>set vs. row_created_at r \<noteq> None"
    using sort_values_desc_parts by blast
  have ns: "\<forall>r\<in>set (nat_rows rows). \<not> row_created_at r \<noteq> None"
    by (simp add: nat_rows_def)
  show ?thesis
    using append_nth_order [of vs "\<lambda>r. row_created_at r \<noteq> None" "nat_rows rows" i j]
      vs ns assms by simp
qed

lemma filter_nat_sort_values_desc:
  "filter (\<lambda>r. row_created_at r = None) (sort_values_desc rows) =
   filter (\<lambda>r. row_created_at r = None) rows"
proof -
  obtain vs where vs: "sort_values_desc rows = vs @ nat_rows rows"
    "\<forall>r\<in>set vs. row_created_at r \<noteq> None"
    using sort_values_desc_parts by blast
  from vs(2) have "filter (\<lambda>r. row_created_at r = None) vs = []"
    by (induction vs) auto
  then show ?thesis
    by (simp add: vs(1) nat_rows_def)
qed

lemma transform_row_nat:
  "to_datetime parse (raw_created_at p) = None \<Longrightarrow>
   row_created_at (transform_row parse p) = None \<and>
   row_created_date (transform_row parse p) = None \<and>
   row_created_hour (transform_row parse p) = None"
  by (simp add: transform_row_def Let_def)

lemma transform_row_derived:
  "row_created_at (transform_row parse p) = to_datetime parse (raw_created_at p)"
  "row_created_date (transform_row parse p) = map_option dt_date (row_created_at (transform_row parse p))"
  "row_created_hour (transform_row parse p) = map_option dt_hour (row_created_at (transform_row parse p))"
  "row_likes (transform_row parse p) = fillna0 (raw_likes p)"
  "row_retweets (transform_row parse p) = fillna0 (raw_retweets p)"
  by (simp_all add: transform_row_def Let_def)

lemma mset_transform_tweets:
  "mset (transform_tweets parse tweets_in) = mset (map (transform_row parse) tweets_in)"
  by (simp add: transform_tweets_def mset_sort_values_desc)

lemma transform_tweets_all_timed:
  assumes "\<forall>p\<in>set tweets_in. to_datetime parse (raw_created_at p) \<noteq> None"
  shows "\<exists>ts. map row_created_at (transform_tweets parse tweets_in) = map Some ts \<and>
           sorted_wrt (\<lambda>a b. b \<le> a) ts"
proof (cases "tweets_in = []")
  case True
  then show ?thesis by (simp add: transform_tweets_def)
next
  case False
  let ?rows = "map (transform_row parse) tweets_in"
  have "nat_rows ?rows = []"
    using assms by (simp add: nat_rows_def filter_empty_conv transform_row_derived)
  with sort_values_desc_split [of ?rows] False show ?thesis
    by (simp add: transform_tweets_def)
qed

lemma set_transform_tweets:
  "set (transform_tweets parse tweets_in) = transform_row parse ` set tweets_in"
  using mset_transform_tweets [of parse tweets_in]
  by (metis mset_eq_setD set_map)

lemma scenario_row:
  "transform_tweets iso8601_utc [scenario_post] =
     [\<lparr>row_id = ascii ''1'', row_created_at = Some 1704103200000000000,
       row_text = ascii ''a b'', row_likes = 0, row_retweets = 5,
       row_tweet_length = 3, row_created_date = Some (2024, 1, 1),
       row_created_hour = Some 10\<rparr>]"
  by code_simp

lemma sample_table:
  "transform_tweets iso8601_utc [undated_post, older_post, scenario_post] =
     [\<lparr>row_id = ascii ''1'', row_created_at = Some 1704103200000000000,
       row_text = ascii ''a b'', row_likes = 0, row_retweets = 5,
       row_tweet_length = 3, row_created_date = Some (2024, 1, 1),
       row_created_hour = Some 10\<rparr>,
      \<lparr>row_id = ascii ''2'', row_created_at = Some 1686817800000000000,
       row_text = ascii ''launch day'', row_likes = 12, row_retweets = 0,
       row_tweet_length = 10, row_created_date = Some (2023, 6, 15),
       row_created_hour = Some 8\<rparr>,
      \<lparr>row_id = ascii ''3'', row_created_at = None,
       row_text = ascii ''no date'', row_likes = 4, row_retweets = 1,
       row_tweet_length = 7, row_created_date = None, row_created_hour = None\<rparr>]"
  by code_simp

lemma sample_times:
  "to_datetime iso8601_utc (raw_created_at scenario_post) = Some 1704103200000000000"
  "to_datetime iso8601_utc (raw_created_at older_post) = Some 1686817800000000000"
  "to_datetime iso8601_utc (raw_created_at undated_post) = None"
  by code_simp+

section \<open>Properties of the job driver\<close>

lemma check_rate_limits_quota:
  "check_rate_limits (c\<lparr>get_rate_limit_status := Inr (quota_status n)\<rparr>) = JInt n"
  by (simp add: check_rate_limits_def read_remaining_def quota_status_def)

lemma check_rate_limits_failed:
  "get_rate_limit_status c = Inl e \<Longrightarrow> check_rate_limits c = JInt 0"
  by (simp add: check_rate_limits_def)

lemma check_rate_limits_unreadable:
  "get_rate_limit_status c = Inr status \<Longrightarrow> read_remaining status = Inl e \<Longrightarrow>
   check_rate_limits c = JInt 0"
  by (simp add: check_rate_limits_def)

lemma load_credentials_sample:
  "load_credentials (sample_env c) =
     Inr (''value of twitter_bearer_token'', ''value of twitter_api_key'',
          ''value of twitter_api_key_secret'', ''value of twitter_access_token'',
          ''value of twitter_access_token_secret'')"
  by (simp add: load_credentials_def sample_env_def)

lemma after_fetch_empty:
  "returned r = [] \<Longrightarrow>
   after_fetch env r w =
     (Inl (ValueError ''No tweets fetched, failing task.''),
      w\<lparr>api_lookups := api_lookups w @ [''NASA''],
        api_page_requests := api_page_requests w @ page_requests r,
        slept := slept w @ sleep_log r\<rparr>)"
  by (simp add: after_fetch_def)

lemma run_twitter_etl_fetch:
  assumes "load_credentials env = Inr (b, k, ks, t, ts)"
    and "less_than_one (check_rate_limits (tweepy_Client env b k ks t ts)) = Inr False"
  shows "run_twitter_etl env w =
           after_fetch env (get_user_tweets (tweepy_Client env b k ks t ts) ''NASA'' 5 3 60) w"
  using assms by (simp add: run_twitter_etl_def)

lemma run_twitter_etl_exhausted:
  assumes "load_credentials env = Inr (b, k, ks, t, ts)"
    and "check_rate_limits (tweepy_Client env b k ks t ts) = JInt n" and "n < 1"
  shows "run_twitter_etl env w = (Inl (ValueError ''Rate limit exhausted.''), w)"
  using assms by (simp add: run_twitter_etl_def)

lemma silent_client_fetch:
  "get_user_tweets silent_client ''NASA'' 5 3 60 =
     \<lparr>returned = [],
      page_requests = [\<lparr>user_id = 11348282, max_results = 5, pagination_token = None\<rparr>],
      sleep_log = []\<rparr>"
  by (simp add: get_user_tweets_def silent_client_def fetch_loop.simps loop_body_def
      initial_state_def after_loop_def Let_def py_slice_to_def)

lemma silent_client_etl_fetch:
  "etl_get_user_tweets silent_client ''NASA'' 5 3 900 =
     Some \<lparr>returned = [],
           page_requests = [\<lparr>user_id = 11348282, max_results = 5, pagination_token = None\<rparr>],
           sleep_log = []\<rparr>"
  by (simp add: etl_get_user_tweets_def silent_client_def etl_fetch_loop.simps etl_loop_body_def
      initial_state_def etl_after_loop_def Let_def py_slice_to_def)

section \<open>Claims about the paginated fetcher\<close>




text \<open>
  Claim C2. The claim holds of the fetcher of p.py (lemma \<open>fetch_loop_bounded\<close>), and
  fails on the fetcher of twitter\_etl.py, the one the scheduled job imports. That loop
  runs while \<open>remaining_count > 0\<close> alone; \<open>max_retries\<close> is a parameter it never reads.
  With a client that refuses every page request, the call with the job's arguments
  sleeps 900 seconds and asks again without end: the fetch does not return, and
  neither does the job.
\<close>

theorem etl_fetch_never_returns_when_refused:
  "always_limited limited_client \<and>
   get_user limited_client ''NASA'' = Inr (Some 11348282) \<and>
   time_sleep 900 = None \<and>
   etl_get_user_tweets limited_client ''NASA'' 5 3 900 = None \<and>
   etl_run_twitter_etl (sample_env limited_client) limited_client empty_world = None \<and>
   returned (get_user_tweets limited_client ''NASA'' 5 3 60) = [] \<and>
   sleep_log (get_user_tweets limited_client ''NASA'' 5 3 60) = [60, 120, 240]"
proof -
  have lim: "always_limited limited_client"
    by (rule limited_client_always)
  have usr: "get_user limited_client ''NASA'' = Inr (Some 11348282)"
    by (simp add: limited_client_def)
  have sl: "time_sleep 900 = None"
    by (simp add: time_sleep_def)
  have "etl_get_user_tweets limited_client ''NASA'' 5 3 900 = None"
    using lim usr sl by (intro etl_get_user_tweets_limited) simp_all
  then show ?thesis
    using lim usr sl by (simp add: etl_run_twitter_etl_def limited_client_run)
qed

theorem etl_fetch_never_returns_when_refused_witness:
  "etl_get_user_tweets limited_client ''NASA'' 5 3 900 = None \<and>
   etl_run_twitter_etl (sample_env limited_client) limited_client empty_world = None"
  using etl_fetch_never_returns_when_refused by simp

text \<open>
  Claim C3. When the loop ends with \<open>retries\<close> at \<open>max_retries\<close>, the fetcher returns the
  empty list, whatever it had accumulated.
\<close>

theorem exhausted_retries_return_empty:
  "get_user c username = Inr (Some uid) \<Longrightarrow>
   max_retries \<le> retries (state_of (fetch_loop c uid cnt max_retries initial_wait (initial_state cnt))) \<Longrightarrow>
   returned (get_user_tweets c username cnt max_retries initial_wait) = []"
  by (simp add: get_user_tweets_def after_loop_exhausted)

theorem exhausted_retries_return_empty_witness:
  "get_user flaky_client ''NASA'' = Inr (Some 11348282) \<and>
   retries (state_of (fetch_loop flaky_client 11348282 5 3 60 (initial_state 5))) = 3 \<and>
   length (tweets (state_of (fetch_loop flaky_client 11348282 5 3 60 (initial_state 5)))) = 2 \<and>
   returned (get_user_tweets flaky_client ''NASA'' 5 3 60) = []"
proof -
  have usr: "get_user flaky_client ''NASA'' = Inr (Some 11348282)"
    by (simp add: flaky_client_def)
  have r: "retries (state_of (fetch_loop flaky_client 11348282 5 3 60 (initial_state 5))) = 3"
    and t: "length (tweets (state_of (fetch_loop flaky_client 11348282 5 3 60 (initial_state 5)))) = 2"
    by (simp_all add: flaky_client_loop)
  from exhausted_retries_return_empty [OF usr, of 3 5 60] r
  have "returned (get_user_tweets flaky_client ''NASA'' 5 3 60) = []" by simp
  with usr r t show ?thesis by blast
qed

text \<open>
  Claim C4 says that the returned list is never longer than the requested count, for
  every count. A negative count is an input the fetcher accepts; the result is then
  empty, and 0 is not at most a negative number.
\<close>

theorem fetch_length_at_most_count_counterexample:
  "\<not> int (length (returned (get_user_tweets healthy_client ''NASA'' (- 1) 3 60))) \<le> - 1"
  by (simp add: get_user_tweets_nonpositive)

text \<open>
  Claim C4, amended. The returned list has at most \<open>max 0 cnt\<close> elements: at most
  \<open>cnt\<close> for a count that is not negative, none otherwise; so does the list of the
  fetcher of twitter\_etl.py, whenever it returns. An account whose only page holds
  fewer posts than requested yields exactly those posts.
\<close>

theorem fetch_length_at_most_count:
  "int (length (returned (get_user_tweets c username cnt max_retries initial_wait))) \<le> max 0 cnt \<and>
   (etl_get_user_tweets c username cnt max_retries wait_time = Some r \<longrightarrow>
      int (length (returned r)) \<le> max 0 cnt) \<and>
   (get_user c username = Inr (Some uid) \<and>
    get_users_tweets c 0 \<lparr>user_id = uid, max_results = min cnt 100, pagination_token = None\<rparr>
      = Inr \<lparr>data = Some ts, meta_next_token = None\<rparr> \<and>
    ts \<noteq> [] \<and> tweet_dicts ts = Inr ds \<and> 0 < cnt \<and> 0 < max_retries \<longrightarrow>
    returned (get_user_tweets c username cnt max_retries initial_wait) = take (nat cnt) ds)"
  using get_user_tweets_length [of c username cnt max_retries initial_wait]
    etl_get_user_tweets_length [of c username cnt max_retries wait_time r]
    get_user_tweets_single_page [of c username uid cnt ts ds max_retries initial_wait]
  by blast

theorem fetch_length_at_most_count_witness:
  "get_user healthy_client ''NASA'' = Inr (Some 11348282) \<and>
   etl_get_user_tweets recovering_client ''NASA'' 5 3 900 =
     Some \<lparr>returned = [\<lparr>raw_id = 1, raw_created_at = Datetime 1704103200000000001,
                         raw_text = ascii ''hello'', raw_likes = Some 7, raw_retweets = Some 2\<rparr>],
           page_requests =
             replicate 3 \<lparr>user_id = 11348282, max_results = 5, pagination_token = None\<rparr>,
           sleep_log = [900, 900]\<rparr> \<and>
   int (length [\<lparr>raw_id = 1, raw_created_at = Datetime 1704103200000000001,
                  raw_text = ascii ''hello'', raw_likes = Some 7, raw_retweets = Some 2\<rparr>])
     \<le> max 0 5 \<and>
   length (returned (get_user_tweets healthy_client ''NASA'' 5 3 60)) = 3 \<and>
   length (returned (get_user_tweets healthy_client ''NASA'' 2 3 60)) = 2 \<and>
   int (length (returned (get_user_tweets healthy_client ''NASA'' 2 3 60))) \<le> max 0 2"
proof -
  let ?ts = "[sample_tweet 1, sample_tweet 2, sample_tweet 3]"
  have usr: "get_user healthy_client ''NASA'' = Inr (Some 11348282)"
    by (simp add: healthy_client_def)
  have page: "get_users_tweets healthy_client 0
       \<lparr>user_id = 11348282, max_results = min n 100, pagination_token = None\<rparr>
      = Inr \<lparr>data = Some ?ts, meta_next_token = None\<rparr>" for n
    by (simp add: healthy_client_def)
  obtain ds where ds: "tweet_dicts ?ts = Inr ds" "length ds = 3"
    by (simp add: sample_tweet_def tweet_dict_def)
  from fetch_length_at_most_count [where c = healthy_client and username = "''NASA''"
      and cnt = 5 and max_retries = 3 and initial_wait = 60 and uid = 11348282
      and ts = ?ts and ds = ds]
    usr page [of 5] ds
  have five: "length (returned (get_user_tweets healthy_client ''NASA'' 5 3 60)) = 3"
    by simp
  from fetch_length_at_most_count [where c = healthy_client and username = "''NASA''"
      and cnt = 2 and max_retries = 3 and initial_wait = 60 and uid = 11348282
      and ts = ?ts and ds = ds]
    usr page [of 2] ds
  have two: "length (returned (get_user_tweets healthy_client ''NASA'' 2 3 60)) = 2"
    by simp
  note etl = recovering_client_etl
  from fetch_length_at_most_count [where c = recovering_client and username = "''NASA''"
      and cnt = 5 and max_retries = 3 and wait_time = 900, OF] etl
  have "int (length [\<lparr>raw_id = 1, raw_created_at = Datetime 1704103200000000001,
                  raw_text = ascii ''hello'', raw_likes = Some 7, raw_retweets = Some 2\<rparr>])
     \<le> max 0 5"
    by simp
  with usr five two etl show ?thesis by simp
qed

text \<open>
  Claim C5. For a count of zero or less the loop body is never entered: no page
  request is sent, nothing is slept, and the result is empty. The fetcher of
  twitter\_etl.py does the same.
\<close>

theorem nonpositive_count_no_request:
  "cnt \<le> 0 \<Longrightarrow>
   fetch_loop c uid cnt max_retries initial_wait (initial_state cnt) = Break (initial_state cnt) \<and>
   get_user_tweets c username cnt max_retries initial_wait =
     \<lparr>returned = [], page_requests = [], sleep_log = []\<rparr> \<and>
   etl_get_user_tweets c username cnt max_retries wait_time =
     Some \<lparr>returned = [], page_requests = [], sleep_log = []\<rparr>"
  by (simp add: get_user_tweets_nonpositive etl_get_user_tweets_nonpositive fetch_loop_stop
      initial_state_def)

theorem nonpositive_count_no_request_witness:
  "(0::int) \<le> 0 \<and>
   fetch_loop healthy_client 11348282 0 3 60 (initial_state 0) = Break (initial_state 0) \<and>
   get_user_tweets healthy_client ''NASA'' 0 3 60 =
     \<lparr>returned = [], page_requests = [], sleep_log = []\<rparr> \<and>
   get_user_tweets healthy_client ''NASA'' (- 7) 3 60 =
     \<lparr>returned = [], page_requests = [], sleep_log = []\<rparr> \<and>
   etl_get_user_tweets healthy_client ''NASA'' 0 3 900 =
     Some \<lparr>returned = [], page_requests = [], sleep_log = []\<rparr>"
  using nonpositive_count_no_request [where cnt = 0 and c = healthy_client and uid = 11348282
      and max_retries = 3 and initial_wait = 60 and username = "''NASA''" and wait_time = 900]
    nonpositive_count_no_request [where cnt = "- 7" and c = healthy_client and uid = 11348282
      and max_retries = 3 and initial_wait = 60 and username = "''NASA''" and wait_time = 900]
  by simp

section \<open>Claims about the transformer\<close>

text \<open>
  Claim C6. For a non-empty input in which every creation time is present and parses,
  the creation times of the output rows are in descending order, newest first; the
  output holds exactly the transformed input rows.
\<close>

theorem transform_sorted_newest_first:
  "tweets_in \<noteq> [] \<Longrightarrow>
   \<forall>p\<in>set tweets_in. to_datetime parse (raw_created_at p) \<noteq> None \<Longrightarrow>
   (\<exists>ts. map row_created_at (transform_tweets parse tweets_in) = map Some ts \<and>
         sorted_wrt (\<lambda>a b. b \<le> a) ts) \<and>
   mset (transform_tweets parse tweets_in) = mset (map (transform_row parse) tweets_in)"
  by (simp add: transform_tweets_all_timed mset_transform_tweets)

theorem transform_sorted_newest_first_witness:
  "[older_post, scenario_post] \<noteq> [] \<and>
   to_datetime iso8601_utc (raw_created_at older_post) \<noteq> None \<and>
   to_datetime iso8601_utc (raw_created_at scenario_post) \<noteq> None \<and>
   (\<exists>ts. map row_created_at (transform_tweets iso8601_utc [older_post, scenario_post]) = map Some ts \<and>
         sorted_wrt (\<lambda>a b. b \<le> a) ts) \<and>
   map row_created_at (transform_tweets iso8601_utc [older_post, scenario_post]) =
     [Some 1704103200000000000, Some 1686817800000000000]"
proof -
  have t: "to_datetime iso8601_utc (raw_created_at older_post) \<noteq> None"
    "to_datetime iso8601_utc (raw_created_at scenario_post) \<noteq> None"
    by (simp_all add: sample_times)
  then have "\<forall>p\<in>set [older_post, scenario_post]. to_datetime iso8601_utc (raw_created_at p) \<noteq> None"
    by simp
  from transform_sorted_newest_first [OF _ this]
  have "\<exists>ts. map row_created_at (transform_tweets iso8601_utc [older_post, scenario_post]) = map Some ts \<and>
         sorted_wrt (\<lambda>a b. b \<le> a) ts"
    by simp
  moreover have "map row_created_at (transform_tweets iso8601_utc [older_post, scenario_post]) =
     [Some 1704103200000000000, Some 1686817800000000000]"
    by code_simp
  ultimately show ?thesis using t by simp
qed

text \<open>
  Claim C7. A post whose likes (or retweets) value is missing or null gets the integer
  0 in that column, and its row is in the output: the column holds integers, so
  there is neither an error nor a null. The post of the specification's scenario
  (id 1, created at 2024-01-01T10:00:00Z, text "a", newline, "b", likes null, retweets 5)
  becomes the row with id "1", that instant, text "a b", likes 0, retweets 5, length 3,
  date 2024-01-01 and hour 10.
\<close>

theorem missing_counts_become_zero:
  "(p \<in> set tweets_in \<longrightarrow>
      transform_row parse p \<in> set (transform_tweets parse tweets_in)) \<and>
   (raw_likes p = None \<longrightarrow> row_likes (transform_row parse p) = 0) \<and>
   (raw_retweets p = None \<longrightarrow> row_retweets (transform_row parse p) = 0) \<and>
   mset (transform_tweets parse tweets_in) = mset (map (transform_row parse) tweets_in) \<and>
   transform_tweets iso8601_utc
     [\<lparr>raw_id = 1, raw_created_at = TimeString (ascii ''2024-01-01T10:00:00Z''),
       raw_text = [97, 10, 98], raw_likes = None, raw_retweets = Some 5\<rparr>] =
     [\<lparr>row_id = ascii ''1'', row_created_at = Some (utc_instant 2024 1 1 10 0 0),
       row_text = ascii ''a b'', row_likes = 0, row_retweets = 5,
       row_tweet_length = 3, row_created_date = Some (2024, 1, 1),
       row_created_hour = Some 10\<rparr>]"
proof -
  have "utc_instant 2024 1 1 10 0 0 = 1704103200000000000"
    by (simp add: utc_instant_def days_from_civil_def Let_def)
  then show ?thesis
    using scenario_row
    by (simp add: set_transform_tweets mset_transform_tweets transform_row_derived
        fillna0_def scenario_post_def)
qed

theorem missing_counts_become_zero_witness:
  "scenario_post \<in> set [undated_post, older_post, scenario_post] \<and>
   raw_likes scenario_post = None \<and>
   raw_retweets older_post = None \<and>
   transform_row iso8601_utc scenario_post
     \<in> set (transform_tweets iso8601_utc [undated_post, older_post, scenario_post]) \<and>
   row_likes (transform_row iso8601_utc scenario_post) = 0 \<and>
   row_retweets (transform_row iso8601_utc older_post) = 0 \<and>
   map row_likes (transform_tweets iso8601_utc [undated_post, older_post, scenario_post]) = [0, 12, 4] \<and>
   map row_retweets (transform_tweets iso8601_utc [undated_post, older_post, scenario_post]) = [5, 0, 1]"
proof -
  have m: "scenario_post \<in> set [undated_post, older_post, scenario_post]" by simp
  have l: "raw_likes scenario_post = None" by (simp add: scenario_post_def)
  have r: "raw_retweets older_post = None" by (simp add: older_post_def)
  from missing_counts_become_zero [of scenario_post "[undated_post, older_post, scenario_post]" iso8601_utc] m l
  have a: "transform_row iso8601_utc scenario_post
     \<in> set (transform_tweets iso8601_utc [undated_post, older_post, scenario_post])"
    "row_likes (transform_row iso8601_utc scenario_post) = 0"
    by blast+
  from missing_counts_become_zero [of older_post "[]" iso8601_utc] r
  have b: "row_retweets (transform_row iso8601_utc older_post) = 0"
    by blast
  have c: "map row_likes (transform_tweets iso8601_utc [undated_post, older_post, scenario_post]) = [0, 12, 4]"
    "map row_retweets (transform_tweets iso8601_utc [undated_post, older_post, scenario_post]) = [5, 0, 1]"
    by (simp_all add: sample_table)
  from m l r a b c show ?thesis by blast
qed

text \<open>
  Claim C10. A post whose creation time does not parse gets a null time, date and
  hour, and its row is kept. In the output every row without a time stands after
  every row with one, and the rows without a time keep the order they had in the
  input.
\<close>

theorem unparsed_times_sort_last:
  "(to_datetime parse (raw_created_at p) = None \<longrightarrow>
      row_created_at (transform_row parse p) = None \<and>
      row_created_date (transform_row parse p) = None \<and>
      row_created_hour (transform_row parse p) = None) \<and>
   (p \<in> set tweets_in \<longrightarrow>
      transform_row parse p \<in> set (transform_tweets parse tweets_in)) \<and>
   (\<forall>i j. i < length (transform_tweets parse tweets_in) \<and>
          j < length (transform_tweets parse tweets_in) \<and>
          row_created_at (transform_tweets parse tweets_in ! i) = None \<and>
          row_created_at (transform_tweets parse tweets_in ! j) \<noteq> None \<longrightarrow> j < i) \<and>
   (\<forall>r\<in>set (transform_tweets parse tweets_in).
      row_created_at r = None \<longrightarrow> row_created_date r = None \<and> row_created_hour r = None) \<and>
   filter (\<lambda>r. row_created_at r = None) (transform_tweets parse tweets_in) =
     filter (\<lambda>r. row_created_at r = None) (map (transform_row parse) tweets_in)"
proof (intro conjI)
  show "to_datetime parse (raw_created_at p) = None \<longrightarrow>
      row_created_at (transform_row parse p) = None \<and>
      row_created_date (transform_row parse p) = None \<and>
      row_created_hour (transform_row parse p) = None"
    by (simp add: transform_row_nat)
  show "p \<in> set tweets_in \<longrightarrow> transform_row parse p \<in> set (transform_tweets parse tweets_in)"
    by (simp add: set_transform_tweets)
  show "\<forall>i j. i < length (transform_tweets parse tweets_in) \<and>
          j < length (transform_tweets parse tweets_in) \<and>
          row_created_at (transform_tweets parse tweets_in ! i) = None \<and>
          row_created_at (transform_tweets parse tweets_in ! j) \<noteq> None \<longrightarrow> j < i"
  proof (cases "tweets_in = []")
    case True
    then show ?thesis by (simp add: transform_tweets_def)
  next
    case False
    then show ?thesis
      using sort_values_desc_nat_last [of _ "map (transform_row parse) tweets_in"]
      by (simp add: transform_tweets_def)
  qed
  show "\<forall>r\<in>set (transform_tweets parse tweets_in).
      row_created_at r = None \<longrightarrow> row_created_date r = None \<and> row_created_hour r = None"
    by (auto simp: set_transform_tweets transform_row_derived)
  show "filter (\<lambda>r. row_created_at r = None) (transform_tweets parse tweets_in) =
     filter (\<lambda>r. row_created_at r = None) (map (transform_row parse) tweets_in)"
    by (simp add: transform_tweets_def filter_nat_sort_values_desc)
qed

theorem unparsed_times_sort_last_witness:
  "to_datetime iso8601_utc (raw_created_at undated_post) = None \<and>
   undated_post \<in> set [undated_post, older_post, scenario_post] \<and>
   row_created_at (transform_row iso8601_utc undated_post) = None \<and>
   row_created_date (transform_row iso8601_utc undated_post) = None \<and>
   row_created_hour (transform_row iso8601_utc undated_post) = None \<and>
   transform_row iso8601_utc undated_post
     \<in> set (transform_tweets iso8601_utc [undated_post, older_post, scenario_post]) \<and>
   map row_id (transform_tweets iso8601_utc [undated_post, older_post, scenario_post]) =
     [ascii ''1'', ascii ''2'', ascii ''3''] \<and>
   row_created_at (transform_tweets iso8601_utc [undated_post, older_post, scenario_post] ! 2) = None \<and>
   row_created_at (transform_tweets iso8601_utc [undated_post, older_post, scenario_post] ! 1) \<noteq> None \<and>
   (1::nat) < 2"
proof -
  let ?out = "transform_tweets iso8601_utc [undated_post, older_post, scenario_post]"
  note inst = unparsed_times_sort_last [of iso8601_utc undated_post "[undated_post, older_post, scenario_post]"]
  have u: "to_datetime iso8601_utc (raw_created_at undated_post) = None"
    by (simp add: sample_times)
  have m: "undated_post \<in> set [undated_post, older_post, scenario_post]" by simp
  from inst u m have a: "row_created_at (transform_row iso8601_utc undated_post) = None"
    "row_created_date (transform_row iso8601_utc undated_post) = None"
    "row_created_hour (transform_row iso8601_utc undated_post) = None"
    "transform_row iso8601_utc undated_post \<in> set ?out"
    by blast+
  have ids: "map row_id ?out = [ascii ''1'', ascii ''2'', ascii ''3'']"
    and i2: "row_created_at (?out ! 2) = None"
    and j1: "row_created_at (?out ! 1) \<noteq> None"
    and len: "2 < length ?out" "1 < length ?out"
    by (simp_all add: sample_table)
  from inst len i2 j1 have "(1::nat) < 2" by blast
  with u m a ids i2 j1 show ?thesis by blast
qed

section \<open>Claims about the job driver\<close>

text \<open>
  Claim C8. When the fetch returns no post, the run ends with the error
  \<open>ValueError("No tweets fetched, failing task.")\<close> (the specification's
  \<open>NoDataError\<close>): no local file is written, nothing is uploaded, and the transformer
  is not called. This holds for the driver of p.py, once the credentials are loaded
  and the quota check has passed, and for the driver of twitter\_etl.py, whenever its
  fetch returns.
\<close>

theorem no_tweets_fails_before_sink:
  "(load_credentials env = Inr (b, k, ks, t, ts) \<and>
    less_than_one (check_rate_limits (tweepy_Client env b k ks t ts)) = Inr False \<and>
    returned (get_user_tweets (tweepy_Client env b k ks t ts) ''NASA'' 5 3 60) = [] \<longrightarrow>
      fst (run_twitter_etl env w) = Inl (ValueError ''No tweets fetched, failing task.'') \<and>
      files (snd (run_twitter_etl env w)) = files w \<and>
      bucket_objects (snd (run_twitter_etl env w)) = bucket_objects w \<and>
      transform_calls (snd (run_twitter_etl env w)) = transform_calls w \<and>
      upload_attempts (snd (run_twitter_etl env w)) = upload_attempts w) \<and>
   (etl_get_user_tweets c ''NASA'' 5 3 900 = Some r \<and> returned r = [] \<longrightarrow>
      (\<exists>w'. etl_run_twitter_etl env c w =
               Some (Inl (ValueError ''No tweets fetched, failing task.''), w') \<and>
            files w' = files w \<and> bucket_objects w' = bucket_objects w \<and>
            transform_calls w' = transform_calls w \<and>
            upload_attempts w' = upload_attempts w))"
  by (auto simp: run_twitter_etl_fetch after_fetch_empty etl_run_twitter_etl_def)

theorem no_tweets_fails_before_sink_witness:
  "load_credentials (sample_env silent_client) =
     Inr (''value of twitter_bearer_token'', ''value of twitter_api_key'',
          ''value of twitter_api_key_secret'', ''value of twitter_access_token'',
          ''value of twitter_access_token_secret'') \<and>
   less_than_one (check_rate_limits silent_client) = Inr False \<and>
   returned (get_user_tweets silent_client ''NASA'' 5 3 60) = [] \<and>
   fst (run_twitter_etl (sample_env silent_client) empty_world) =
     Inl (ValueError ''No tweets fetched, failing task.'') \<and>
   files (snd (run_twitter_etl (sample_env silent_client) empty_world)) ''/tmp/tweets.csv'' = None \<and>
   transform_calls (snd (run_twitter_etl (sample_env silent_client) empty_world)) = 0 \<and>
   upload_attempts (snd (run_twitter_etl (sample_env silent_client) empty_world)) = [] \<and>
   etl_get_user_tweets silent_client ''NASA'' 5 3 900 =
     Some \<lparr>returned = [],
           page_requests = [\<lparr>user_id = 11348282, max_results = 5, pagination_token = None\<rparr>],
           sleep_log = []\<rparr> \<and>
   (\<exists>w'. etl_run_twitter_etl (sample_env silent_client) silent_client empty_world =
            Some (Inl (ValueError ''No tweets fetched, failing task.''), w') \<and>
         files w' ''/tmp/tweets.csv'' = None \<and> upload_attempts w' = [])"
proof -
  let ?env = "sample_env silent_client"
  have cl: "tweepy_Client ?env b k ks t ts = silent_client" for b k ks t ts
    by (simp add: sample_env_def)
  have cr: "load_credentials ?env =
     Inr (''value of twitter_bearer_token'', ''value of twitter_api_key'',
          ''value of twitter_api_key_secret'', ''value of twitter_access_token'',
          ''value of twitter_access_token_secret'')"
    by (rule load_credentials_sample)
  have q: "less_than_one (check_rate_limits silent_client) = Inr False"
    by (simp add: check_rate_limits_def read_remaining_def silent_client_def quota_status_def)
  have f: "returned (get_user_tweets silent_client ''NASA'' 5 3 60) = []"
    by (simp add: silent_client_fetch)
  have e: "etl_get_user_tweets silent_client ''NASA'' 5 3 900 =
     Some \<lparr>returned = [],
           page_requests = [\<lparr>user_id = 11348282, max_results = 5, pagination_token = None\<rparr>],
           sleep_log = []\<rparr>"
    by (rule silent_client_etl_fetch)
  note inst = no_tweets_fails_before_sink [of ?env "''value of twitter_bearer_token''"
      "''value of twitter_api_key''" "''value of twitter_api_key_secret''"
      "''value of twitter_access_token''" "''value of twitter_access_token_secret''"
      empty_world silent_client
      "\<lparr>returned = [],
           page_requests = [\<lparr>user_id = 11348282, max_results = 5, pagination_token = None\<rparr>],
           sleep_log = []\<rparr>"]
  from inst cr q f have p: "fst (run_twitter_etl ?env empty_world) =
       Inl (ValueError ''No tweets fetched, failing task.'')"
    "files (snd (run_twitter_etl ?env empty_world)) = files empty_world"
    "transform_calls (snd (run_twitter_etl ?env empty_world)) = transform_calls empty_world"
    "upload_attempts (snd (run_twitter_etl ?env empty_world)) = upload_attempts empty_world"
    by (simp_all add: cl)
  from inst e obtain w' where w': "etl_run_twitter_etl ?env silent_client empty_world =
            Some (Inl (ValueError ''No tweets fetched, failing task.''), w')"
    "files w' = files empty_world" "upload_attempts w' = upload_attempts empty_world"
    by auto
  from p w' cr q f e show ?thesis
    by (auto simp: empty_world_def)
qed

text \<open>
  Claim C9. In p.py, when the status request raises, or the status that arrives cannot
  be read, \<open>check_rate_limits\<close> returns 0, exactly as it does for a status that
  reports no remaining request. The run then ends with
  \<open>ValueError("Rate limit exhausted.")\<close> and an unchanged world: no user lookup and
  no page request were made. The two causes give the same run.
\<close>

theorem failed_quota_check_aborts_run:
  "(get_rate_limit_status c = Inl e \<longrightarrow> check_rate_limits c = JInt 0) \<and>
   (get_rate_limit_status c = Inr status \<and> read_remaining status = Inl e \<longrightarrow>
      check_rate_limits c = JInt 0) \<and>
   check_rate_limits (c\<lparr>get_rate_limit_status := Inr (quota_status 0)\<rparr>) = JInt 0 \<and>
   (load_credentials env = Inr (b, k, ks, t, ts) \<and>
    check_rate_limits (tweepy_Client env b k ks t ts) = JInt 0 \<longrightarrow>
      run_twitter_etl env w = (Inl (ValueError ''Rate limit exhausted.''), w))"
  using check_rate_limits_failed [of c e] check_rate_limits_unreadable [of c status e]
    check_rate_limits_quota [where c = c and n = 0] run_twitter_etl_exhausted [of env b k ks t ts 0 w]
  by simp

theorem failed_quota_check_aborts_run_witness:
  "get_rate_limit_status unchecked_client = Inl Exception \<and>
   check_rate_limits unchecked_client = JInt 0 \<and>
   get_rate_limit_status (healthy_client\<lparr>get_rate_limit_status := Inr (JObj [])\<rparr>) = Inr (JObj []) \<and>
   read_remaining (JObj []) = Inl KeyError \<and>
   check_rate_limits (healthy_client\<lparr>get_rate_limit_status := Inr (JObj [])\<rparr>) = JInt 0 \<and>
   check_rate_limits (healthy_client\<lparr>get_rate_limit_status := Inr (quota_status 0)\<rparr>) = JInt 0 \<and>
   run_twitter_etl (sample_env unchecked_client) empty_world =
     (Inl (ValueError ''Rate limit exhausted.''), empty_world) \<and>
   run_twitter_etl (sample_env (healthy_client\<lparr>get_rate_limit_status := Inr (quota_status 0)\<rparr>))
       empty_world =
     (Inl (ValueError ''Rate limit exhausted.''), empty_world) \<and>
   fst (run_twitter_etl (sample_env healthy_client) empty_world) = Inr ()"
proof -
  let ?bad = "healthy_client\<lparr>get_rate_limit_status := Inr (JObj [])\<rparr>"
  let ?zero = "healthy_client\<lparr>get_rate_limit_status := Inr (quota_status 0)\<rparr>"
  have cr: "load_credentials (sample_env c) =
     Inr (''value of twitter_bearer_token'', ''value of twitter_api_key'',
          ''value of twitter_api_key_secret'', ''value of twitter_access_token'',
          ''value of twitter_access_token_secret'')" for c
    by (rule load_credentials_sample)
  have cl: "tweepy_Client (sample_env c) b k ks t ts = c" for c b k ks t ts
    by (simp add: sample_env_def)
  have s: "get_rate_limit_status unchecked_client = Inl Exception"
    by (simp add: unchecked_client_def)
  have b: "get_rate_limit_status ?bad = Inr (JObj [])" "read_remaining (JObj []) = Inl KeyError"
    by (simp_all add: read_remaining_def)
  from failed_quota_check_aborts_run [where c = unchecked_client and e = Exception] s
  have c1: "check_rate_limits unchecked_client = JInt 0" by blast
  from failed_quota_check_aborts_run [where c = ?bad and status = "JObj []" and e = KeyError] b
  have c2: "check_rate_limits ?bad = JInt 0" by blast
  from failed_quota_check_aborts_run [where c = healthy_client]
  have c3: "check_rate_limits ?zero = JInt 0" by blast
  from failed_quota_check_aborts_run [where env = "sample_env unchecked_client" and w = empty_world]
    cr [of unchecked_client] c1
  have r1: "run_twitter_etl (sample_env unchecked_client) empty_world =
     (Inl (ValueError ''Rate limit exhausted.''), empty_world)"
    by (simp add: cl)
  from failed_quota_check_aborts_run [where env = "sample_env ?zero" and w = empty_world]
    cr [of ?zero] c3
  have r2: "run_twitter_etl (sample_env ?zero) empty_world =
     (Inl (ValueError ''Rate limit exhausted.''), empty_world)"
    by (simp add: cl)
  have r3: "fst (run_twitter_etl (sample_env healthy_client) empty_world) = Inr ()"
    by code_simp
  from s b c1 c2 c3 r1 r2 r3 show ?thesis by blast
qed

end
